theory Spec2Isabelle
  imports Main
begin

section \<open>ES Viewer: the document client and the JSON tree view of \<open>es_gui.py\<close>\<close>

subsection \<open>JSON values as Python holds them\<close>

text \<open>
  \<open>response.json()\<close> and \<open>json.loads\<close> give \<open>None\<close>, \<open>bool\<close>, \<open>int\<close>, \<open>float\<close>,
  \<open>str\<close>, \<open>list\<close> and \<open>dict\<close>. A dict keeps its insertion order, so it is an association
  list. The viewer only ever calls \<open>str\<close> on a float, so a float is carried by the
  text \<open>str\<close> returns for it.
\<close>

datatype scalar =
    PyNone
  | PyBool bool
  | PyInt int
  | PyFloat string
  | PyStr string

datatype json =
    Scalar scalar
  | PyList "json list"
  | PyDict "(string \<times> json) list"

subsection \<open>Python's \<open>str\<close> on scalars\<close>

definition digit_char :: "nat \<Rightarrow> char" where
  "digit_char d = ''0123456789'' ! d"

fun str_nat :: "nat \<Rightarrow> string" where
  "str_nat n = (if n < 10 then [digit_char n] else str_nat (n div 10) @ [digit_char (n mod 10)])"

declare str_nat.simps [simp del]

definition str_int :: "int \<Rightarrow> string" where
  "str_int i = (if i < 0 then CHR ''-'' # str_nat (nat (- i)) else str_nat (nat i))"

fun py_str :: "scalar \<Rightarrow> string" where
  "py_str PyNone = ''None''"
| "py_str (PyBool True) = ''True''"
| "py_str (PyBool False) = ''False''"
| "py_str (PyInt i) = str_int i"
| "py_str (PyFloat r) = r"
| "py_str (PyStr s) = s"

subsection \<open>The tree model\<close>

text \<open>
  A row of the \<open>QStandardItemModel\<close> is the pair \<open>[key_item, value_item]\<close>; child rows hang
  on the key item. \<open>row_value\<close> is \<open>None\<close> while \<open>setText\<close> was never called on the value
  item (\<open>QStandardItem()\<close> has no display text) and \<open>Some s\<close> after \<open>setText(s)\<close>.
\<close>

datatype tree_row = TreeRow (row_key: string) (row_value: "string option") (children: "tree_row list")

definition QStandardItem :: "string \<Rightarrow> tree_row" where
  "QStandardItem label = TreeRow label None []"

definition appendRow :: "tree_row \<Rightarrow> tree_row \<Rightarrow> tree_row" where
  "appendRow parent_item row = TreeRow (row_key parent_item) (row_value parent_item) (children parent_item @ [row])"

definition setText :: "string \<Rightarrow> tree_row \<Rightarrow> tree_row" where
  "setText s row = TreeRow (row_key row) (Some s) (children row)"

definition index_label :: "nat \<Rightarrow> string" where
  "index_label i = ''['' @ str_nat i @ '']''"

text \<open>
  \<open>_populate_tree_model(data, parent_item)\<close>: the two \<open>for\<close> loops are \<open>dict_loop\<close> and
  \<open>list_loop\<close> (with the counter of \<open>enumerate\<close>); the parent item is passed in and returned
  with the new rows appended. The source appends the row first and fills the key item
  afterwards through the shared reference; here the key item is filled and then appended,
  which leaves the same tree. A scalar \<open>data\<close> matches neither \<open>isinstance\<close> test and the
  parent is returned as it is.
\<close>

fun populate_tree_model :: "json \<Rightarrow> tree_row \<Rightarrow> tree_row"
  and dict_loop :: "(string \<times> json) list \<Rightarrow> tree_row \<Rightarrow> tree_row"
  and list_loop :: "nat \<Rightarrow> json list \<Rightarrow> tree_row \<Rightarrow> tree_row"
where
  "populate_tree_model (PyDict items) parent_item = dict_loop items parent_item"
| "populate_tree_model (PyList elems) parent_item = list_loop 0 elems parent_item"
| "populate_tree_model (Scalar s) parent_item = parent_item"
| "dict_loop [] parent_item = parent_item"
| "dict_loop ((k, v) # rest) parent_item =
     dict_loop rest (appendRow parent_item
       (case v of
          PyDict _ \<Rightarrow> populate_tree_model v (QStandardItem k)
        | PyList _ \<Rightarrow> populate_tree_model v (QStandardItem k)
        | Scalar s \<Rightarrow> setText (py_str s) (QStandardItem k)))"
| "list_loop i [] parent_item = parent_item"
| "list_loop i (v # rest) parent_item =
     list_loop (Suc i) rest (appendRow parent_item
       (case v of
          PyDict _ \<Rightarrow> populate_tree_model v (QStandardItem (index_label i))
        | PyList _ \<Rightarrow> populate_tree_model v (QStandardItem (index_label i))
        | Scalar s \<Rightarrow> setText (py_str s) (QStandardItem (index_label i))))"

text \<open>\<open>populate_tree\<close>: a fresh model, whose invisible root item receives the rows.\<close>

definition invisibleRootItem :: tree_row where
  "invisibleRootItem = TreeRow [] None []"

definition populate_tree :: "json \<Rightarrow> tree_row" where
  "populate_tree data = populate_tree_model data invisibleRootItem"

subsection \<open>The document client\<close>

text \<open>
  What lies outside the file: the \<open>requests\<close> library and the server behind it, and
  \<open>json.dumps\<close>. A call into the library either returns or raises; an exception is
  carried with the text \<open>str(e)\<close> gives. The classes that matter to the \<open>except\<close> clauses:
  \<^item> \<open>SSLError\<close>, \<open>ConnectionError\<close>, \<open>Timeout\<close>, and \<open>RequestException\<close> for any other
    class of \<open>requests.exceptions\<close> (\<open>HTTPError\<close> apart, which \<open>raise_for_status\<close> alone
    raises);
  \<^item> \<open>JSONDecodeError\<close>, the class \<open>response.json()\<close> raises on text that is not JSON;
    from \<open>requests\<close> 2.27 on it is both a \<open>RequestException\<close> and a
    \<open>json.JSONDecodeError\<close>;
  \<^item> \<open>OtherException cls m\<close>, an exception of any class \<open>cls\<close> that is neither: the
    \<open>ValueError\<close> of \<open>response.json()\<close> on an integer literal beyond the digit limit, its
    \<open>RecursionError\<close> on deep nesting, the \<open>UnicodeEncodeError\<close> of \<open>requests.request\<close> on
    credentials outside Latin-1;
  \<^item> \<open>SimpleEsClientError\<close>, the one exception class the file defines.
\<close>

datatype py_exception =
    SSLError string
  | ConnectionError string
  | Timeout string
  | RequestException string
  | JSONDecodeError string
  | OtherException string string
  | SimpleEsClientError string

fun exc_str :: "py_exception \<Rightarrow> string" where
  "exc_str (SSLError m) = m"
| "exc_str (ConnectionError m) = m"
| "exc_str (Timeout m) = m"
| "exc_str (RequestException m) = m"
| "exc_str (JSONDecodeError m) = m"
| "exc_str (OtherException cls m) = m"
| "exc_str (SimpleEsClientError m) = m"

text \<open>The \<open>isinstance\<close> tests that the \<open>except\<close> clauses make.\<close>

fun is_SSLError :: "py_exception \<Rightarrow> bool" where
  "is_SSLError (SSLError _) = True"
| "is_SSLError _ = False"

fun is_RequestException :: "py_exception \<Rightarrow> bool" where
  "is_RequestException (SSLError _) = True"
| "is_RequestException (ConnectionError _) = True"
| "is_RequestException (Timeout _) = True"
| "is_RequestException (RequestException _) = True"
| "is_RequestException (JSONDecodeError _) = True"
| "is_RequestException (OtherException _ _) = False"
| "is_RequestException (SimpleEsClientError _) = False"

fun is_JSONDecodeError :: "py_exception \<Rightarrow> bool" where
  "is_JSONDecodeError (JSONDecodeError _) = True"
| "is_JSONDecodeError _ = False"

record http_request =
  req_method :: string
  req_url :: string
  req_auth :: "(string \<times> string) option"
  req_headers :: "(string \<times> string) list"
  req_timeout :: nat
  req_verify :: bool
  req_json :: "json option"

text \<open>
  \<open>json_result\<close> is what \<open>response.json()\<close> does on this response: \<open>Inr v\<close> returns \<open>v\<close>,
  \<open>Inl e\<close> raises \<open>e\<close>.
\<close>

record response =
  status_code :: int
  reason :: string
  content :: string
  resp_text :: string
  json_result :: "py_exception + json"

record world =
  respond :: "http_request \<Rightarrow> py_exception + response"
  json_dumps :: "json \<Rightarrow> string"
  sent :: "http_request list"

definition requests_request :: "http_request \<Rightarrow> world \<Rightarrow> (py_exception + response) \<times> world" where
  "requests_request rq w = (respond w rq, w\<lparr>sent := sent w @ [rq]\<rparr>)"

text \<open>\<open>Response.raise_for_status\<close> raises \<open>HTTPError\<close> for the 4xx and 5xx codes only.\<close>

definition raise_for_status :: "response \<Rightarrow> bool" where
  "raise_for_status r = (400 \<le> status_code r \<and> status_code r < 600)"

record client =
  base_url :: string
  auth :: "(string \<times> string) option"
  headers :: "(string \<times> string) list"
  verify_ssl :: bool

definition SimpleEsClient :: "string \<Rightarrow> (string \<times> string) option \<Rightarrow> bool \<Rightarrow> client" where
  "SimpleEsClient url a v =
     \<lparr> base_url = (if url \<noteq> [] \<and> last url = CHR ''/'' then butlast url else url),
       auth = a,
       headers = [(''Content-Type'', ''application/json'')],
       verify_ssl = v \<rparr>"

definition build_request :: "client \<Rightarrow> string \<Rightarrow> string \<Rightarrow> json option \<Rightarrow> http_request" where
  "build_request c method endpoint body =
     \<lparr> req_method = method,
       req_url = base_url c @ ''/'' @ endpoint,
       req_auth = auth c,
       req_headers = headers c,
       req_timeout = 10,
       req_verify = verify_ssl c,
       req_json = body \<rparr>"

definition ssl_error_message :: string where
  "ssl_error_message =
     ''SSL Error: Could not verify certificate. Try unchecking 'Verify SSL Certificate'.\<newline>Details: ''"

text \<open>
  The second and third \<open>except\<close> clauses, in the source's order, for an exception \<open>e\<close>
  that the \<open>try\<close> body raised and that is no \<open>HTTPError\<close>: the result is the exception
  that leaves \<open>_make_request\<close>. One that is no \<open>RequestException\<close> matches no clause and
  leaves as it is.
\<close>

definition except_clauses :: "py_exception \<Rightarrow> py_exception" where
  "except_clauses e =
     (if is_SSLError e then SimpleEsClientError (ssl_error_message @ exc_str e)
      else if is_RequestException e then SimpleEsClientError (''Connection failed: '' @ exc_str e)
      else e)"

text \<open>
  \<open>_make_request\<close>. \<open>Inl e\<close> is the exception that leaves the call, \<open>Inr v\<close> the value
  returned. The \<open>try\<close> body calls \<open>requests.request\<close>, \<open>raise_for_status\<close> and, unless the
  status is 204 or the body empty, \<open>response.json()\<close>. The first \<open>except\<close> clause has the
  \<open>HTTPError\<close> of \<open>raise_for_status\<close>; inside it, \<open>except json.JSONDecodeError\<close> catches
  that class only, and whatever else \<open>e.response.json()\<close> raises leaves the handler
  uncaught.
\<close>

definition make_request :: "client \<Rightarrow> string \<Rightarrow> string \<Rightarrow> json option \<Rightarrow> world \<Rightarrow> (py_exception + json) \<times> world" where
  "make_request c method endpoint body w =
     (case requests_request (build_request c method endpoint body) w of
        (outcome, w') \<Rightarrow>
          ((case outcome of
              Inr rsp \<Rightarrow>
                if raise_for_status rsp then
                  (let error_details = ''HTTP Error: '' @ str_int (status_code rsp) @ '' '' @ reason rsp in
                   case json_result rsp of
                     Inr es_error_body \<Rightarrow>
                       Inl (SimpleEsClientError (error_details @ ''\<newline>Details: '' @ json_dumps w' es_error_body))
                   | Inl e \<Rightarrow>
                       if is_JSONDecodeError e then
                         Inl (SimpleEsClientError (error_details @ ''\<newline>Response Body: '' @ resp_text rsp))
                       else Inl e)
                else if status_code rsp = 204 \<or> content rsp = [] then
                  Inr (PyDict [(''acknowledged'', Scalar (PyBool True)),
                               (''status'', Scalar (PyInt (status_code rsp))),
                               (''operation'', Scalar (PyStr method))])
                else
                  (case json_result rsp of
                     Inr v \<Rightarrow> Inr v
                   | Inl e \<Rightarrow> Inl (except_clauses e))
            | Inl e \<Rightarrow> Inl (except_clauses e)),
           w'))"

definition info :: "client \<Rightarrow> world \<Rightarrow> (py_exception + json) \<times> world" where
  "info c = make_request c ''GET'' [] None"

definition search :: "client \<Rightarrow> string \<Rightarrow> json \<Rightarrow> world \<Rightarrow> (py_exception + json) \<times> world" where
  "search c index query = make_request c ''POST'' (index @ ''/_search'') (Some query)"

definition get_document :: "client \<Rightarrow> string \<Rightarrow> string \<Rightarrow> world \<Rightarrow> (py_exception + json) \<times> world" where
  "get_document c index doc_id = make_request c ''GET'' (index @ ''/_doc/'' @ doc_id) None"

text \<open>\<open>if doc_id:\<close> is Python truthiness: \<open>None\<close> and the empty string are both false.\<close>

definition index_document :: "client \<Rightarrow> string \<Rightarrow> json \<Rightarrow> string option \<Rightarrow> world \<Rightarrow> (py_exception + json) \<times> world" where
  "index_document c index document doc_id =
     (case doc_id of
        Some i \<Rightarrow>
          if i \<noteq> [] then make_request c ''PUT'' (index @ ''/_doc/'' @ i) (Some document)
          else make_request c ''POST'' (index @ ''/_doc'') (Some document)
      | None \<Rightarrow> make_request c ''POST'' (index @ ''/_doc'') (Some document))"

definition update_document :: "client \<Rightarrow> string \<Rightarrow> string \<Rightarrow> json \<Rightarrow> world \<Rightarrow> (py_exception + json) \<times> world" where
  "update_document c index doc_id payload = make_request c ''POST'' (index @ ''/_update/'' @ doc_id) (Some payload)"

definition delete_document :: "client \<Rightarrow> string \<Rightarrow> string \<Rightarrow> world \<Rightarrow> (py_exception + json) \<times> world" where
  "delete_document c index doc_id = make_request c ''DELETE'' (index @ ''/_doc/'' @ doc_id) None"

subsection \<open>Vocabulary of the properties\<close>

text \<open>The row that one pass of either loop body appends for a label and a member value.\<close>

definition row_of :: "string \<Rightarrow> json \<Rightarrow> tree_row" where
  "row_of label v =
     (case v of
        PyDict _ \<Rightarrow> populate_tree_model v (QStandardItem label)
      | PyList _ \<Rightarrow> populate_tree_model v (QStandardItem label)
      | Scalar s \<Rightarrow> setText (py_str s) (QStandardItem label))"

text \<open>
  All rows below an item, and all member values below a JSON value, both in display
  order (a row or value first, then what it contains).
\<close>

fun sub_rows :: "tree_row \<Rightarrow> tree_row list" where
  "sub_rows (TreeRow k v cs) = concat (map (\<lambda>c. c # sub_rows c) cs)"

fun sub_values :: "json \<Rightarrow> json list" where
  "sub_values (Scalar s) = []"
| "sub_values (PyList elems) = concat (map (\<lambda>x. x # sub_values x) elems)"
| "sub_values (PyDict items) = concat (map (\<lambda>(k, x). x # sub_values x) items)"

fun is_scalar :: "json \<Rightarrow> bool" where
  "is_scalar (Scalar s) = True"
| "is_scalar _ = False"

fun is_nonempty_container :: "json \<Rightarrow> bool" where
  "is_nonempty_container (Scalar s) = False"
| "is_nonempty_container (PyList elems) = (elems \<noteq> [])"
| "is_nonempty_container (PyDict items) = (items \<noteq> [])"

definition row_matches :: "tree_row \<Rightarrow> json \<Rightarrow> bool" where
  "row_matches r u = ((row_value r \<noteq> None) = is_scalar u \<and> (children r \<noteq> []) = is_nonempty_container u)"

text \<open>
  What a reader of the tree can see: labels in order, nesting, and the text of each leaf.
  \<open>skeleton_of\<close> is the same information taken from the JSON value, an array element
  being labelled by its index; \<open>read_tree\<close> takes it from the rows.
\<close>

datatype skeleton = Leaf string | Node "(string \<times> skeleton) list"

fun skeleton_of :: "json \<Rightarrow> skeleton" where
  "skeleton_of (Scalar s) = Leaf (py_str s)"
| "skeleton_of (PyList elems) = Node (zip (map index_label [0..<length elems]) (map skeleton_of elems))"
| "skeleton_of (PyDict items) = Node (map (\<lambda>(k, x). (k, skeleton_of x)) items)"

fun read_row :: "tree_row \<Rightarrow> string \<times> skeleton" where
  "read_row (TreeRow k v cs) = (k, case v of Some s \<Rightarrow> Leaf s | None \<Rightarrow> Node (map read_row cs))"

definition read_tree :: "tree_row \<Rightarrow> skeleton" where
  "read_tree root_item = Node (map read_row (children root_item))"

text \<open>
  The specification's reading of "shape up to stringification": the JSON value with every
  scalar replaced by its string form, objects and arrays kept apart.
\<close>

fun stringified :: "json \<Rightarrow> json" where
  "stringified (Scalar s) = Scalar (PyStr (py_str s))"
| "stringified (PyList elems) = PyList (map stringified elems)"
| "stringified (PyDict items) = PyDict (map (\<lambda>(k, x). (k, stringified x)) items)"

text \<open>Reading a decimal numeral back, to show that \<open>str_nat\<close> loses nothing.\<close>

definition digit_value :: "char \<Rightarrow> nat" where
  "digit_value ch = (if ch = CHR ''1'' then 1 else if ch = CHR ''2'' then 2 else if ch = CHR ''3'' then 3
     else if ch = CHR ''4'' then 4 else if ch = CHR ''5'' then 5 else if ch = CHR ''6'' then 6
     else if ch = CHR ''7'' then 7 else if ch = CHR ''8'' then 8 else if ch = CHR ''9'' then 9 else 0)"

definition int_of_digits :: "string \<Rightarrow> nat" where
  "int_of_digits s = foldl (\<lambda>a ch. 10 * a + digit_value ch) 0 s"

text \<open>
  The outcomes of \<open>response.json()\<close> that the \<open>HTTPError\<close> handler provides for: the
  body decodes, or decoding raises \<open>JSONDecodeError\<close>.
\<close>

definition json_decodes_or_fails :: "response \<Rightarrow> bool" where
  "json_decodes_or_fails rsp = (case json_result rsp of Inr v \<Rightarrow> True | Inl e \<Rightarrow> is_JSONDecodeError e)"

text \<open>A digit string is the decimal numeral of \<open>n\<close>: digits only, no leading zero, value \<open>n\<close>.\<close>

definition decimal_of :: "string \<Rightarrow> nat \<Rightarrow> bool" where
  "decimal_of ds n =
     (ds \<noteq> [] \<and> set ds \<subseteq> set ''0123456789'' \<and> int_of_digits ds = n
      \<and> (hd ds = CHR ''0'' \<longrightarrow> ds = ''0''))"

subsection \<open>Sample inputs\<close>

definition client0 :: client where
  "client0 = SimpleEsClient ''http://localhost:9200/'' None True"

definition dquote :: string where
  "dquote = [CHR 0x22]"

fun join :: "string \<Rightarrow> string list \<Rightarrow> string" where
  "join sep [] = []"
| "join sep [x] = x"
| "join sep (x # y # rest) = x @ sep @ join sep (y # rest)"

text \<open>
  What \<open>json.dumps\<close> writes with its default separators, for values whose keys and
  strings need no escaping and whose floats are finite.
\<close>

fun sample_dumps :: "json \<Rightarrow> string" where
  "sample_dumps (Scalar PyNone) = ''null''"
| "sample_dumps (Scalar (PyBool True)) = ''true''"
| "sample_dumps (Scalar (PyBool False)) = ''false''"
| "sample_dumps (Scalar (PyInt i)) = str_int i"
| "sample_dumps (Scalar (PyFloat r)) = r"
| "sample_dumps (Scalar (PyStr s)) = dquote @ s @ dquote"
| "sample_dumps (PyList elems) = ''['' @ join '', '' (map sample_dumps elems) @ '']''"
| "sample_dumps (PyDict items) =
     ''{'' @ join '', '' (map (\<lambda>(k, v). dquote @ k @ dquote @ '': '' @ sample_dumps v) items) @ ''}''"

text \<open>A world whose server answers every request the same way; nothing sent yet.\<close>

definition world_of :: "(py_exception + response) \<Rightarrow> world" where
  "world_of outcome = \<lparr> respond = (\<lambda>rq. outcome), json_dumps = sample_dumps, sent = [] \<rparr>"

definition created :: response where
  "created = \<lparr> status_code = 201, reason = ''Created'', content = ''{}'', resp_text = ''{}'',
       json_result = Inr (PyDict []) \<rparr>"

definition no_content :: response where
  "no_content = \<lparr> status_code = 204, reason = ''No Content'', content = [], resp_text = [],
       json_result = Inl (JSONDecodeError ''Expecting value: line 1 column 1 (char 0)'') \<rparr>"

definition not_modified :: response where
  "not_modified = \<lparr> status_code = 304, reason = ''Not Modified'', content = [], resp_text = [],
       json_result = Inl (JSONDecodeError ''Expecting value: line 1 column 1 (char 0)'') \<rparr>"

text \<open>The 404 of the specification's example: a JSON object with the one key \<open>error\<close>.\<close>

definition not_found_body :: string where
  "not_found_body = ''{'' @ dquote @ ''error'' @ dquote @ '':'' @ dquote @ ''not_found'' @ dquote @ ''}''"

definition not_found :: response where
  "not_found = \<lparr> status_code = 404, reason = ''Not Found'', content = not_found_body,
       resp_text = not_found_body,
       json_result = Inr (PyDict [(''error'', Scalar (PyStr ''not_found''))]) \<rparr>"

text \<open>A 502 from a proxy in front of the cluster, with a body that is not JSON.\<close>

definition bad_gateway :: response where
  "bad_gateway = \<lparr> status_code = 502, reason = ''Bad Gateway'', content = ''upstream down'',
       resp_text = ''upstream down'',
       json_result = Inl (JSONDecodeError ''Expecting value: line 1 column 1 (char 0)'') \<rparr>"

text \<open>A 404 whose body is the digit 1 followed by 5000 zeros: \<open>response.json()\<close> raises \<open>ValueError\<close>.\<close>

definition long_number_404 :: response where
  "long_number_404 = \<lparr> status_code = 404, reason = ''Not Found'',
       content = CHR ''1'' # replicate 5000 (CHR ''0''),
       resp_text = CHR ''1'' # replicate 5000 (CHR ''0''),
       json_result = Inl (OtherException ''ValueError''
         ''Exceeds the limit (4300 digits) for integer string conversion'') \<rparr>"

definition server_error :: response where
  "server_error = \<lparr> status_code = 500, reason = ''Internal Server Error'', content = [], resp_text = [],
       json_result = Inl (JSONDecodeError ''Expecting value: line 1 column 1 (char 0)'') \<rparr>"

definition sample_doc :: json where
  "sample_doc = PyDict [(''a'', Scalar (PyInt 1)), (''b'', PyList []), (''c'', PyList [Scalar PyNone])]"

definition eleven_elems :: "json list" where
  "eleven_elems =
     [Scalar (PyStr ''a''), Scalar (PyStr ''b''), Scalar (PyStr ''c''), Scalar (PyStr ''d''),
      Scalar (PyStr ''e''), Scalar (PyStr ''f''), Scalar (PyStr ''g''), Scalar (PyStr ''h''),
      Scalar (PyStr ''i''), Scalar (PyStr ''j''), PyList []]"

section \<open>Properties of the document client\<close>

lemma str_nat_small: "n < 10 \<Longrightarrow> str_nat n = [digit_char n]"
  by (simp add: str_nat.simps)

lemma str_nat_step: "10 \<le> n \<Longrightarrow> str_nat n = str_nat (n div 10) @ [digit_char (n mod 10)]"
  by (subst str_nat.simps) simp

lemma str_int_404: "str_int 404 = ''404''"
  by (simp add: str_int_def str_nat_step str_nat_small digit_char_def)

lemma str_int_500: "str_int 500 = ''500''"
  by (simp add: str_int_def str_nat_step str_nat_small digit_char_def)

lemma sent_make_request:
  "sent (snd (make_request c m e b w)) = sent w @ [build_request c m e b]"
  by (simp add: make_request_def requests_request_def)

lemma fst_make_request:
  "fst (make_request c m e b w) =
     (case respond w (build_request c m e b) of
        Inr rsp \<Rightarrow>
          if raise_for_status rsp then
            (case json_result rsp of
               Inr es_error_body \<Rightarrow>
                 Inl (SimpleEsClientError ((''HTTP Error: '' @ str_int (status_code rsp) @ '' '' @ reason rsp)
                        @ ''\<newline>Details: '' @ json_dumps w es_error_body))
             | Inl ex \<Rightarrow>
                 if is_JSONDecodeError ex then
                   Inl (SimpleEsClientError ((''HTTP Error: '' @ str_int (status_code rsp) @ '' '' @ reason rsp)
                          @ ''\<newline>Response Body: '' @ resp_text rsp))
                 else Inl ex)
          else if status_code rsp = 204 \<or> content rsp = [] then
            Inr (PyDict [(''acknowledged'', Scalar (PyBool True)),
                         (''status'', Scalar (PyInt (status_code rsp))),
                         (''operation'', Scalar (PyStr m))])
          else
            (case json_result rsp of
               Inr v \<Rightarrow> Inr v
             | Inl ex \<Rightarrow> Inl (except_clauses ex))
      | Inl ex \<Rightarrow> Inl (except_clauses ex))"
  by (simp add: make_request_def requests_request_def Let_def split: sum.splits)

lemma str_int_502: "str_int 502 = ''502''"
  by (simp add: str_int_def str_nat_step str_nat_small digit_char_def)

lemma sample_dumps_not_found:
  "sample_dumps (PyDict [(''error'', Scalar (PyStr ''not_found''))]) =
     ''{'' @ dquote @ ''error'' @ dquote @ '': '' @ dquote @ ''not_found'' @ dquote @ ''}''"
  by simp

text \<open>
  Outside the three handled kinds of failure, the exception leaves \<open>_make_request\<close> as it
  is: what \<open>response.json()\<close> raises inside the \<open>HTTPError\<close> handler other than
  \<open>JSONDecodeError\<close>, and what the \<open>try\<close> body raises that is no \<open>RequestException\<close>.
\<close>

lemma other_json_failure_escapes:
  assumes "respond w (build_request c m e b) = Inr rsp" and "raise_for_status rsp"
    and "json_result rsp = Inl ex" and "\<not> is_JSONDecodeError ex"
  shows "fst (make_request c m e b w) = Inl ex"
  using assms by (simp add: fst_make_request)

lemma long_number_404_escapes:
  "fst (get_document client0 ''my-index'' ''7'' (world_of (Inr long_number_404))) =
     Inl (OtherException ''ValueError'' ''Exceeds the limit (4300 digits) for integer string conversion'')"
  by (simp add: get_document_def fst_make_request world_of_def long_number_404_def raise_for_status_def)

lemma other_request_failure_escapes:
  assumes "respond w (build_request c m e b) = Inl ex" and "\<not> is_RequestException ex"
  shows "fst (make_request c m e b w) = Inl ex"
  using assms by (cases ex) (simp_all add: fst_make_request except_clauses_def)

text \<open>
  C1: with a non-empty id, \<open>index_document\<close> sends exactly one request, a PUT to
  \<open>{base}/{index}/_doc/{id}\<close>; with no id it sends exactly one request, a POST to
  \<open>{base}/{index}/_doc\<close>. The log of requests grows by that one entry, which carries the
  document as its JSON body and the client's auth, headers, timeout and verify setting.
\<close>

theorem index_document_one_request:
  "(doc_id \<noteq> [] \<longrightarrow>
      sent (snd (index_document c index document (Some doc_id) w)) =
        sent w @ [\<lparr> req_method = ''PUT'',
                    req_url = base_url c @ ''/'' @ index @ ''/_doc/'' @ doc_id,
                    req_auth = auth c, req_headers = headers c, req_timeout = 10,
                    req_verify = verify_ssl c, req_json = Some document \<rparr>])
   \<and> sent (snd (index_document c index document None w)) =
        sent w @ [\<lparr> req_method = ''POST'',
                    req_url = base_url c @ ''/'' @ index @ ''/_doc'',
                    req_auth = auth c, req_headers = headers c, req_timeout = 10,
                    req_verify = verify_ssl c, req_json = Some document \<rparr>]"
  by (simp add: index_document_def sent_make_request build_request_def)

theorem index_document_one_request_witness:
  "''42'' \<noteq> [] \<and>
   sent (snd (index_document client0 ''my-index'' (PyDict [(''a'', Scalar (PyInt 1))]) (Some ''42'')
                (world_of (Inr created)))) =
     [\<lparr> req_method = ''PUT'', req_url = ''http://localhost:9200/my-index/_doc/42'',
        req_auth = None, req_headers = [(''Content-Type'', ''application/json'')], req_timeout = 10,
        req_verify = True, req_json = Some (PyDict [(''a'', Scalar (PyInt 1))]) \<rparr>]"
  using index_document_one_request [of "''42''" client0 "''my-index''"
      "PyDict [(''a'', Scalar (PyInt 1))]" "world_of (Inr created)"]
  by (simp add: client0_def SimpleEsClient_def world_of_def)

text \<open>
  C10: \<open>index_document\<close> called with the empty string as id does what it does with no id:
  the same result and the same single POST to \<open>{base}/{index}/_doc\<close>, never a PUT.
\<close>

theorem index_document_empty_id:
  "index_document c index document (Some []) w = index_document c index document None w
   \<and> sent (snd (index_document c index document (Some []) w)) =
        sent w @ [\<lparr> req_method = ''POST'',
                    req_url = base_url c @ ''/'' @ index @ ''/_doc'',
                    req_auth = auth c, req_headers = headers c, req_timeout = 10,
                    req_verify = verify_ssl c, req_json = Some document \<rparr>]"
  by (simp add: index_document_def sent_make_request build_request_def)

text \<open>
  C2, as the code has it: whenever the response status is a 4xx or 5xx code and
  \<open>response.json()\<close> either decodes the body or raises \<open>JSONDecodeError\<close>, the operation
  raises \<open>SimpleEsClientError\<close>, whose message is \<open>HTTP Error:\<close> with the status code and
  the reason phrase, followed by \<open>Details:\<close> and \<open>json.dumps\<close> of the decoded body when
  the body parses as JSON, and by \<open>Response Body:\<close> and the raw text otherwise.
  Every operation of the client is a call of \<open>make_request\<close>.
\<close>

theorem http_error_raised:
  assumes "respond w (build_request c m e b) = Inr rsp"
    and "400 \<le> status_code rsp" and "status_code rsp < 600"
    and "json_decodes_or_fails rsp"
  shows "fst (make_request c m e b w) =
           Inl (SimpleEsClientError
                 (''HTTP Error: '' @ str_int (status_code rsp) @ '' '' @ reason rsp @
                    (case json_result rsp of
                       Inr body \<Rightarrow> ''\<newline>Details: '' @ json_dumps w body
                     | Inl _ \<Rightarrow> ''\<newline>Response Body: '' @ resp_text rsp)))"
  using assms
  by (simp add: fst_make_request raise_for_status_def json_decodes_or_fails_def split: sum.splits)

theorem http_error_raised_witness:
  "respond (world_of (Inr not_found)) (build_request client0 ''GET'' ''my-index/_doc/7'' None) = Inr not_found
   \<and> 400 \<le> status_code not_found \<and> status_code not_found < 600
   \<and> json_decodes_or_fails not_found
   \<and> fst (get_document client0 ''my-index'' ''7'' (world_of (Inr not_found))) =
       Inl (SimpleEsClientError
             (''HTTP Error: 404 Not Found\<newline>Details: {'' @ dquote @ ''error'' @ dquote @ '': ''
                @ dquote @ ''not_found'' @ dquote @ ''}''))
   \<and> respond (world_of (Inr bad_gateway)) (build_request client0 ''GET'' [] None) = Inr bad_gateway
   \<and> 400 \<le> status_code bad_gateway \<and> status_code bad_gateway < 600
   \<and> json_decodes_or_fails bad_gateway
   \<and> fst (info client0 (world_of (Inr bad_gateway))) =
       Inl (SimpleEsClientError ''HTTP Error: 502 Bad Gateway\<newline>Response Body: upstream down'')"
  using http_error_raised [of "world_of (Inr not_found)" client0 "''GET''" "''my-index/_doc/7''" None not_found]
    http_error_raised [of "world_of (Inr bad_gateway)" client0 "''GET''" "[]" None bad_gateway]
  by (simp add: world_of_def not_found_def bad_gateway_def get_document_def info_def
        json_decodes_or_fails_def str_int_404 str_int_502)

text \<open>
  C2 as stated fails outside 4xx and 5xx: a 304 response is not 2xx, and \<open>info\<close> returns
  the acknowledgement object for it instead of raising.
\<close>

theorem non_2xx_returns_counterexample:
  "\<not> (200 \<le> status_code not_modified \<and> status_code not_modified < 300)
   \<and> respond (world_of (Inr not_modified)) (build_request client0 ''GET'' [] None) = Inr not_modified
   \<and> fst (info client0 (world_of (Inr not_modified))) =
       Inr (PyDict [(''acknowledged'', Scalar (PyBool True)),
                    (''status'', Scalar (PyInt 304)),
                    (''operation'', Scalar (PyStr ''GET''))])"
  by (simp add: info_def fst_make_request world_of_def not_modified_def raise_for_status_def)

text \<open>
  C4, as the code has it: a response whose status is not a 4xx or 5xx code, and which has
  status 204 or an empty body, is returned as the object with \<open>acknowledged\<close> true, the
  status code and the HTTP method that was issued, whatever \<open>response.json()\<close> would give.
\<close>

theorem acknowledged_when_no_error:
  assumes "respond w (build_request c m e b) = Inr rsp"
    and "\<not> (400 \<le> status_code rsp \<and> status_code rsp < 600)"
    and "status_code rsp = 204 \<or> content rsp = []"
  shows "fst (make_request c m e b w) =
           Inr (PyDict [(''acknowledged'', Scalar (PyBool True)),
                        (''status'', Scalar (PyInt (status_code rsp))),
                        (''operation'', Scalar (PyStr m))])"
  using assms by (auto simp add: fst_make_request raise_for_status_def)

theorem acknowledged_when_no_error_witness:
  "respond (world_of (Inr no_content)) (build_request client0 ''DELETE'' ''my-index/_doc/7'' None) = Inr no_content
   \<and> \<not> (400 \<le> status_code no_content \<and> status_code no_content < 600)
   \<and> (status_code no_content = 204 \<or> content no_content = [])
   \<and> fst (delete_document client0 ''my-index'' ''7'' (world_of (Inr no_content))) =
       Inr (PyDict [(''acknowledged'', Scalar (PyBool True)),
                    (''status'', Scalar (PyInt 204)),
                    (''operation'', Scalar (PyStr ''DELETE''))])"
  using acknowledged_when_no_error [of "world_of (Inr no_content)" client0 "''DELETE''" "''my-index/_doc/7''" None no_content]
  by (simp add: world_of_def no_content_def delete_document_def)

text \<open>
  C4 as stated fails for an error status: a 500 response with an empty body is not turned
  into the acknowledgement object, \<open>raise_for_status\<close> comes first and the call raises.
\<close>

theorem empty_body_error_counterexample:
  "content server_error = []
   \<and> respond (world_of (Inr server_error)) (build_request client0 ''GET'' [] None) = Inr server_error
   \<and> fst (info client0 (world_of (Inr server_error))) =
       Inl (SimpleEsClientError ''HTTP Error: 500 Internal Server Error\<newline>Response Body: '')"
  by (simp add: info_def fst_make_request world_of_def server_error_def raise_for_status_def str_int_500)




section \<open>Properties of the tree view\<close>

subsection \<open>What the loops append\<close>

lemma dict_loop_rows:
  "dict_loop items p = TreeRow (row_key p) (row_value p) (children p @ map (\<lambda>(k, v). row_of k v) items)"
  by (induction items arbitrary: p) (auto simp: appendRow_def row_of_def)

lemma list_loop_rows:
  "list_loop i elems p =
     TreeRow (row_key p) (row_value p)
       (children p @ map (\<lambda>(j, v). row_of (index_label j) v) (zip [i..<i + length elems] elems))"
proof (induction elems arbitrary: i p)
  case Nil
  then show ?case by simp
next
  case (Cons v rest)
  have "[i..<i + length (v # rest)] = i # [Suc i..<Suc i + length rest]"
    by (simp add: upt_rec)
  then show ?case
    by (simp add: Cons.IH appendRow_def row_of_def)
qed

lemma populate_tree_model_rows:
  "populate_tree_model v p =
     TreeRow (row_key p) (row_value p) (children p @ children (populate_tree v))"
  by (cases v) (simp_all add: populate_tree_def invisibleRootItem_def dict_loop_rows list_loop_rows)

lemma row_of_fields:
  "row_of label v =
     TreeRow label (case v of Scalar s \<Rightarrow> Some (py_str s) | _ \<Rightarrow> None) (children (populate_tree v))"
  by (cases v)
     (simp_all add: row_of_def setText_def QStandardItem_def populate_tree_model_rows [of _ "TreeRow label None []"]
        populate_tree_def invisibleRootItem_def)

lemma rows_PyDict:
  "children (populate_tree (PyDict items)) = map (\<lambda>(k, v). row_of k v) items"
  by (simp add: populate_tree_def invisibleRootItem_def dict_loop_rows)

lemma rows_PyList:
  "children (populate_tree (PyList elems)) =
     map (\<lambda>(j, v). row_of (index_label j) v) (zip [0..<length elems] elems)"
  by (simp add: populate_tree_def invisibleRootItem_def list_loop_rows)

lemma rows_Scalar: "children (populate_tree (Scalar s)) = []"
  by (simp add: populate_tree_def invisibleRootItem_def)

lemma map_of_fst_zip: "length xs = length ys \<Longrightarrow> map (\<lambda>p. f (fst p)) (zip xs ys) = map f xs"
  by (induction xs ys rule: list_induct2) simp_all

lemma map_of_snd_zip: "length xs = length ys \<Longrightarrow> map (\<lambda>p. g (snd p)) (zip xs ys) = map g ys"
  by (induction xs ys rule: list_induct2) simp_all

subsection \<open>Index labels are decimal numerals\<close>

lemma digit_value_digit_char: "d < 10 \<Longrightarrow> digit_value (digit_char d) = d"
proof -
  assume "d < 10"
  then have "d \<in> {0, 1, 2, 3, 4, 5, 6, 7, 8, 9}" by auto
  then show ?thesis
    by (auto simp: digit_value_def digit_char_def)
qed

lemma int_of_digits_str_nat: "int_of_digits (str_nat n) = n"
proof (induction n rule: str_nat.induct)
  case (1 n)
  show ?case
  proof (cases "n < 10")
    case True
    then show ?thesis
      by (simp add: str_nat_small int_of_digits_def digit_value_digit_char)
  next
    case False
    then have "int_of_digits (str_nat (n div 10)) = n div 10"
      by (rule "1.IH")
    with False show ?thesis
      by (simp add: str_nat_step int_of_digits_def digit_value_digit_char)
  qed
qed

lemma str_nat_inj: "str_nat m = str_nat n \<Longrightarrow> m = n"
  by (metis int_of_digits_str_nat)

lemma index_label_inj: "inj index_label"
  by (auto simp: inj_def index_label_def dest: str_nat_inj)

lemma index_label_examples:
  "index_label 0 = ''[0]'' \<and> index_label 1 = ''[1]'' \<and> index_label 12 = ''[12]''"
  by (simp add: index_label_def str_nat_small str_nat_step digit_char_def)

lemma digit_char_is_digit: "d < 10 \<Longrightarrow> digit_char d \<in> set ''0123456789''"
proof -
  assume "d < 10"
  then have "d \<in> {0, 1, 2, 3, 4, 5, 6, 7, 8, 9}" by auto
  then show ?thesis
    by (auto simp: digit_char_def)
qed

lemma digit_char_zero: "d < 10 \<Longrightarrow> digit_char d = CHR ''0'' \<Longrightarrow> d = 0"
proof -
  assume "d < 10" and z: "digit_char d = CHR ''0''"
  then have "d \<in> {0, 1, 2, 3, 4, 5, 6, 7, 8, 9}" by auto
  with z show ?thesis
    by (auto simp: digit_char_def)
qed

lemma str_nat_nonempty: "str_nat n \<noteq> []"
  by (subst str_nat.simps) simp

lemma str_nat_digits: "set (str_nat n) \<subseteq> set ''0123456789''"
proof (induction n rule: str_nat.induct)
  case (1 n)
  show ?case
  proof (cases "n < 10")
    case True
    then show ?thesis
      using digit_char_is_digit [of n] by (simp add: str_nat_small)
  next
    case False
    then have "set (str_nat (n div 10)) \<subseteq> set ''0123456789''"
      by (rule "1.IH")
    moreover have "digit_char (n mod 10) \<in> set ''0123456789''"
      by (rule digit_char_is_digit) simp
    ultimately show ?thesis
      using False by (simp add: str_nat_step)
  qed
qed

lemma str_nat_leading_zero: "hd (str_nat n) = CHR ''0'' \<Longrightarrow> n = 0"
proof (induction n rule: str_nat.induct)
  case (1 n)
  show ?case
  proof (cases "n < 10")
    case True
    with "1.prems" show ?thesis
      by (simp add: str_nat_small digit_char_zero)
  next
    case False
    with "1.prems" have "hd (str_nat (n div 10)) = CHR ''0''"
      by (simp add: str_nat_step str_nat_nonempty)
    with False have "n div 10 = 0"
      by (rule "1.IH")
    with False show ?thesis by simp
  qed
qed

lemma decimal_of_str_nat: "decimal_of (str_nat n) n"
proof -
  have "hd (str_nat n) = CHR ''0'' \<longrightarrow> str_nat n = ''0''"
  proof
    assume "hd (str_nat n) = CHR ''0''"
    then have "n = 0" by (rule str_nat_leading_zero)
    then show "str_nat n = ''0''"
      by (simp add: str_nat_small digit_char_def)
  qed
  then show ?thesis
    unfolding decimal_of_def
    using str_nat_nonempty [of n] str_nat_digits [of n] int_of_digits_str_nat [of n] by blast
qed

subsection \<open>Rows of objects and arrays\<close>

text \<open>
  C7: an object gives one row per key, in the order of \<open>data.items()\<close>, which is the
  insertion order; nothing is sorted. The row of a key carries the string form of a scalar
  value, or no value and the rows of the nested object or array as its children.
\<close>

theorem dict_rows_in_insertion_order:
  "map row_key (children (populate_tree (PyDict items))) = map fst items
   \<and> map row_value (children (populate_tree (PyDict items))) =
       map (\<lambda>(k, v). case v of Scalar s \<Rightarrow> Some (py_str s) | _ \<Rightarrow> None) items
   \<and> map children (children (populate_tree (PyDict items))) =
       map (\<lambda>(k, v). children (populate_tree v)) items"
  by (simp add: rows_PyDict row_of_fields case_prod_unfold)

text \<open>
  C8: an array of length \<open>n\<close> gives exactly \<open>n\<close> rows; the row at position \<open>i\<close> is
  labelled with an opening bracket, the decimal numeral of \<open>i\<close> (digits only, no leading
  zero, of value \<open>i\<close>) and a closing bracket, so the labels are \<open>[0]\<close>, \<open>[1]\<close>, ...,
  \<open>[n-1]\<close> in this order, all different, and the row at position \<open>i\<close> shows the element
  at position \<open>i\<close>.
\<close>

theorem list_rows_labelled_by_index:
  "map row_key (children (populate_tree (PyList elems))) =
       map (\<lambda>i. ''['' @ str_nat i @ '']'') [0..<length elems]
   \<and> (\<forall>i < length elems. decimal_of (str_nat i) i)
   \<and> distinct (map row_key (children (populate_tree (PyList elems))))
   \<and> map row_value (children (populate_tree (PyList elems))) =
       map (\<lambda>v. case v of Scalar s \<Rightarrow> Some (py_str s) | _ \<Rightarrow> None) elems
   \<and> map children (children (populate_tree (PyList elems))) =
       map (\<lambda>v. children (populate_tree v)) elems"
proof -
  let ?z = "zip [0..<length elems] elems"
  have len: "length [0..<length elems] = length elems" by simp
  have rows: "children (populate_tree (PyList elems)) =
      map (\<lambda>p. TreeRow (index_label (fst p))
                 (case snd p of Scalar s \<Rightarrow> Some (py_str s) | _ \<Rightarrow> None)
                 (children (populate_tree (snd p)))) ?z"
    by (simp add: rows_PyList row_of_fields case_prod_unfold)
  have "map row_key (children (populate_tree (PyList elems))) = map (\<lambda>p. index_label (fst p)) ?z"
    by (simp add: rows comp_def)
  also have "\<dots> = map index_label [0..<length elems]"
    by (rule map_of_fst_zip [OF len])
  finally have keys: "map row_key (children (populate_tree (PyList elems))) = map index_label [0..<length elems]" .
  have brackets: "index_label = (\<lambda>i. ''['' @ str_nat i @ '']'')"
    by (rule ext) (simp add: index_label_def)
  have "inj_on index_label (set [0..<length elems])"
    using index_label_inj by (rule inj_on_subset) simp
  then have dist: "distinct (map row_key (children (populate_tree (PyList elems))))"
    unfolding keys by (simp add: distinct_map)
  have dec: "\<forall>i < length elems. decimal_of (str_nat i) i"
    by (simp add: decimal_of_str_nat)
  have "map row_value (children (populate_tree (PyList elems))) =
      map (\<lambda>p. (\<lambda>v. case v of Scalar s \<Rightarrow> Some (py_str s) | _ \<Rightarrow> None) (snd p)) ?z"
    by (simp add: rows comp_def)
  also have "\<dots> = map (\<lambda>v. case v of Scalar s \<Rightarrow> Some (py_str s) | _ \<Rightarrow> None) elems"
    by (rule map_of_snd_zip [OF len])
  finally have vals: "map row_value (children (populate_tree (PyList elems))) =
      map (\<lambda>v. case v of Scalar s \<Rightarrow> Some (py_str s) | _ \<Rightarrow> None) elems" .
  have "map children (children (populate_tree (PyList elems))) =
      map (\<lambda>p. (\<lambda>v. children (populate_tree v)) (snd p)) ?z"
    by (simp add: rows comp_def)
  also have "\<dots> = map (\<lambda>v. children (populate_tree v)) elems"
    by (rule map_of_snd_zip [OF len])
  finally have subs: "map children (children (populate_tree (PyList elems))) =
      map (\<lambda>v. children (populate_tree v)) elems" .
  from keys [unfolded brackets] dec dist vals subs show ?thesis by blast
qed

theorem list_rows_labelled_by_index_witness:
  "(10::nat) < length eleven_elems
   \<and> decimal_of ''10'' 10
   \<and> map row_key (children (populate_tree (PyList eleven_elems))) =
       [''[0]'', ''[1]'', ''[2]'', ''[3]'', ''[4]'', ''[5]'', ''[6]'', ''[7]'', ''[8]'', ''[9]'', ''[10]'']
   \<and> map row_value (children (populate_tree (PyList eleven_elems))) =
       [Some ''a'', Some ''b'', Some ''c'', Some ''d'', Some ''e'', Some ''f'', Some ''g'', Some ''h'',
        Some ''i'', Some ''j'', None]"
proof -
  have ten: "str_nat 10 = ''10''"
    by (simp add: str_nat_step str_nat_small digit_char_def)
  have upt: "[0..<11] = [0, 1, 2, 3, 4, 5, 6, 7, 8, 9, 10::nat]"
    by (simp add: upt_rec)
  have len: "length eleven_elems = 11"
    by (simp add: eleven_elems_def)
  from list_rows_labelled_by_index [of eleven_elems]
  have keys: "map row_key (children (populate_tree (PyList eleven_elems))) =
          map (\<lambda>i. ''['' @ str_nat i @ '']'') [0..<11]"
    and dec: "\<forall>i < 11. decimal_of (str_nat i) i"
    and vals: "map row_value (children (populate_tree (PyList eleven_elems))) =
          map (\<lambda>v. case v of Scalar s \<Rightarrow> Some (py_str s) | _ \<Rightarrow> None) eleven_elems"
    by (simp_all add: len)
  from dec have "decimal_of (str_nat 10) 10" by simp
  then have d10: "decimal_of ''10'' 10" by (simp only: ten)
  have k: "map row_key (children (populate_tree (PyList eleven_elems))) =
       [''[0]'', ''[1]'', ''[2]'', ''[3]'', ''[4]'', ''[5]'', ''[6]'', ''[7]'', ''[8]'', ''[9]'', ''[10]'']"
    unfolding keys by (simp add: upt ten str_nat_small digit_char_def)
  have v: "map row_value (children (populate_tree (PyList eleven_elems))) =
       [Some ''a'', Some ''b'', Some ''c'', Some ''d'', Some ''e'', Some ''f'', Some ''g'', Some ''h'',
        Some ''i'', Some ''j'', None]"
    unfolding vals by (simp add: eleven_elems_def)
  from d10 k v len show ?thesis by simp
qed

subsection \<open>A scalar at the root\<close>

text \<open>
  C5, as the code has it: a scalar given as the root input matches neither \<open>isinstance\<close>
  test, so no row is appended and the tree stays empty.
\<close>

theorem root_scalar_no_rows:
  "populate_tree (Scalar s) = invisibleRootItem \<and> children (populate_tree (Scalar s)) = []"
  by (simp add: populate_tree_def invisibleRootItem_def)

text \<open>C5 as stated fails: for the root input \<open>5\<close> there is not one row but none.\<close>

theorem root_scalar_counterexample:
  "length (children (populate_tree (Scalar (PyInt 5)))) \<noteq> 1"
  by (simp add: populate_tree_def invisibleRootItem_def)

subsection \<open>Value or children, never both\<close>

lemma sub_rows_children: "sub_rows r = concat (map (\<lambda>c. c # sub_rows c) (children r))"
  by (cases r) simp

lemma sub_rows_row_of: "sub_rows (row_of label v) = sub_rows (populate_tree v)"
  by (simp add: sub_rows_children [of "row_of label v"] sub_rows_children [of "populate_tree v"] row_of_fields)

lemma row_matches_row_of: "row_matches (row_of label v) v"
  by (cases v) (simp_all add: row_matches_def row_of_fields rows_PyDict rows_PyList rows_Scalar)

lemma list_all2_concat_map:
  assumes "length xs = length ys"
    and "\<And>i. i < length xs \<Longrightarrow> list_all2 P (f (xs ! i)) (g (ys ! i))"
  shows "list_all2 P (concat (map f xs)) (concat (map g ys))"
  using assms
proof (induction xs ys rule: list_induct2)
  case Nil
  then show ?case by simp
next
  case (Cons x xs y ys)
  have "list_all2 P (f x) (g y)" using Cons.prems [of 0] by simp
  moreover have "list_all2 P (concat (map f xs)) (concat (map g ys))"
    using Cons.prems [of "Suc i" for i] by (intro Cons.IH) simp
  ultimately show ?case by (simp add: list_all2_appendI)
qed

lemma sub_rows_match: "list_all2 row_matches (sub_rows (populate_tree v)) (sub_values v)"
proof (induction v)
  case (Scalar s)
  then show ?case
    by (simp add: sub_rows_children [of "populate_tree (Scalar s)"] rows_Scalar)
next
  case (PyList elems)
  have "list_all2 row_matches
          (concat (map (\<lambda>c. c # sub_rows c) (map (\<lambda>(j, v). row_of (index_label j) v) (zip [0..<length elems] elems))))
          (concat (map (\<lambda>x. x # sub_values x) elems))"
    unfolding map_map
  proof (rule list_all2_concat_map)
    show "length (zip [0..<length elems] elems) = length elems" by simp
  next
    fix i assume "i < length (zip [0..<length elems] elems)"
    then have i: "i < length elems" by simp
    then have "elems ! i \<in> set elems" by simp
    then have "list_all2 row_matches (sub_rows (populate_tree (elems ! i))) (sub_values (elems ! i))"
      by (rule PyList.IH)
    with i show "list_all2 row_matches
        (((\<lambda>c. c # sub_rows c) \<circ> (\<lambda>(j, v). row_of (index_label j) v)) (zip [0..<length elems] elems ! i))
        (elems ! i # sub_values (elems ! i))"
      by (simp add: sub_rows_row_of row_matches_row_of)
  qed
  then show ?case
    by (simp add: sub_rows_children [of "populate_tree (PyList elems)"] rows_PyList)
next
  case (PyDict items)
  have "list_all2 row_matches
          (concat (map (\<lambda>c. c # sub_rows c) (map (\<lambda>(k, v). row_of k v) items)))
          (concat (map (\<lambda>(k, x). x # sub_values x) items))"
    unfolding map_map
  proof (rule list_all2_concat_map)
    show "length items = length items" by simp
  next
    fix i assume i: "i < length items"
    obtain k x where kx: "items ! i = (k, x)" by (cases "items ! i")
    from i have "items ! i \<in> set items" by simp
    with kx have "list_all2 row_matches (sub_rows (populate_tree x)) (sub_values x)"
      by (intro PyDict.IH [of "(k, x)" x]) simp_all
    with kx show "list_all2 row_matches
        (((\<lambda>c. c # sub_rows c) \<circ> (\<lambda>(k, v). row_of k v)) (items ! i))
        (case items ! i of (k, x) \<Rightarrow> x # sub_values x)"
      by (simp add: sub_rows_row_of row_matches_row_of)
  qed
  then show ?case
    by (simp add: sub_rows_children [of "populate_tree (PyDict items)"] rows_PyDict)
qed

lemma populate_sample_doc:
  "populate_tree sample_doc =
     TreeRow [] None
       [TreeRow ''a'' (Some ''1'') [],
        TreeRow ''b'' None [],
        TreeRow ''c'' None [TreeRow ''[0]'' (Some ''None'') []]]"
  by (simp add: sample_doc_def populate_tree_def invisibleRootItem_def appendRow_def setText_def
        QStandardItem_def index_label_def str_int_def str_nat_small digit_char_def)

text \<open>
  C9: the rows of the tree, at every depth, stand one for one and in order for the member
  values of the input; the row of a scalar has a value and no children, the row of a
  non-empty object or array has children and no value, and the row of an empty object or
  array has neither. So no row has both a value and children, and exactly one of the two
  holds except for empty containers.
\<close>

theorem rows_value_xor_children:
  "list_all2 row_matches (sub_rows (populate_tree v)) (sub_values v)
   \<and> (\<forall>r \<in> set (sub_rows (populate_tree v)). \<not> (row_value r \<noteq> None \<and> children r \<noteq> []))"
proof
  show m: "list_all2 row_matches (sub_rows (populate_tree v)) (sub_values v)"
    by (rule sub_rows_match)
  show "\<forall>r \<in> set (sub_rows (populate_tree v)). \<not> (row_value r \<noteq> None \<and> children r \<noteq> [])"
  proof
    fix r assume "r \<in> set (sub_rows (populate_tree v))"
    then obtain i where i: "i < length (sub_rows (populate_tree v))" and r: "r = sub_rows (populate_tree v) ! i"
      by (auto simp: in_set_conv_nth)
    from m i have "row_matches r (sub_values v ! i)"
      unfolding r by (rule list_all2_nthD)
    then show "\<not> (row_value r \<noteq> None \<and> children r \<noteq> [])"
      by (cases "sub_values v ! i") (simp_all add: row_matches_def)
  qed
qed

theorem rows_value_xor_children_witness:
  "TreeRow ''a'' (Some ''1'') [] \<in> set (sub_rows (populate_tree sample_doc))
   \<and> \<not> (row_value (TreeRow ''a'' (Some ''1'') []) \<noteq> None \<and> children (TreeRow ''a'' (Some ''1'') []) \<noteq> [])
   \<and> list_all2 row_matches (sub_rows (populate_tree sample_doc)) (sub_values sample_doc)"
  using rows_value_xor_children [of sample_doc]
  by (simp add: populate_sample_doc)

subsection \<open>What the tree keeps of the JSON value\<close>

lemma read_row_row_of: "read_row (row_of label v) = (label, skeleton_of v)"
proof (induction v arbitrary: label)
  case (Scalar s)
  then show ?case by (simp add: row_of_fields)
next
  case (PyList elems)
  have "map read_row (map (\<lambda>(j, v). row_of (index_label j) v) (zip [0..<length elems] elems)) =
        map (\<lambda>(j, v). (index_label j, skeleton_of v)) (zip [0..<length elems] elems)"
    unfolding map_map
    by (rule map_cong [OF refl]) (auto simp: PyList.IH dest: set_zip_rightD)
  also have "\<dots> = zip (map index_label [0..<length elems]) (map skeleton_of elems)"
    by (simp add: zip_map_map)
  finally show ?case
    by (simp add: row_of_fields rows_PyList)
next
  case (PyDict items)
  have "map read_row (map (\<lambda>(k, v). row_of k v) items) = map (\<lambda>(k, x). (k, skeleton_of x)) items"
    unfolding map_map
    by (rule map_cong [OF refl]) (auto simp: PyDict.IH)
  then show ?case
    by (simp add: row_of_fields rows_PyDict)
qed

text \<open>
  C6, as the code has it: for every JSON object or array, the tree gives back the keys
  (for an array the labels \<open>[i]\<close>), their order, the nesting, and the string form of every
  scalar; every key, index and scalar below the root has its row. What the tree does not
  keep is whether a container was an object or an array, besides the types of the
  scalars; and a scalar at the root leaves no row.
\<close>

theorem tree_determines_skeleton:
  "read_tree (populate_tree (PyDict items)) = skeleton_of (PyDict items)
   \<and> read_tree (populate_tree (PyList elems)) = skeleton_of (PyList elems)"
proof
  have "map read_row (map (\<lambda>(k, v). row_of k v) items) = map (\<lambda>(k, x). (k, skeleton_of x)) items"
    unfolding map_map
    by (rule map_cong [OF refl]) (auto simp: read_row_row_of)
  then show "read_tree (populate_tree (PyDict items)) = skeleton_of (PyDict items)"
    by (simp add: read_tree_def rows_PyDict)
next
  have "map read_row (map (\<lambda>(j, v). row_of (index_label j) v) (zip [0..<length elems] elems)) =
        map (\<lambda>(j, v). (index_label j, skeleton_of v)) (zip [0..<length elems] elems)"
    unfolding map_map
    by (rule map_cong [OF refl]) (auto simp: read_row_row_of)
  also have "\<dots> = zip (map index_label [0..<length elems]) (map skeleton_of elems)"
    by (simp add: zip_map_map)
  finally show "read_tree (populate_tree (PyList elems)) = skeleton_of (PyList elems)"
    by (simp add: read_tree_def rows_PyList)
qed

text \<open>
  C6 as stated fails: an object holding an empty array and the same object holding an
  empty object give the same tree, although they differ in shape even after every scalar
  is replaced by its string form; no reconstruction can tell them apart.
\<close>

theorem shape_lost_counterexample:
  "populate_tree (PyDict [(''a'', PyList [])]) = populate_tree (PyDict [(''a'', PyDict [])])
   \<and> stringified (PyDict [(''a'', PyList [])]) \<noteq> stringified (PyDict [(''a'', PyDict [])])"
  by (simp add: populate_tree_def invisibleRootItem_def appendRow_def QStandardItem_def)

end
